theory Spec2Isabelle
  imports Main "HOL-Library.AList"
begin

section \<open>Values exchanged with the handlers\<close>

text \<open>
  The handlers of \<^verbatim>\<open>backend/api/routes_sync.py\<close> and
  \<^verbatim>\<open>backend/api/routes_homeassistant.py\<close> return JSON dictionaries. The values that
  occur in them are integers, strings and lists of event ids; a dictionary is a map from
  its keys to such values (the handlers never iterate over a response).
\<close>

datatype pyval = PInt int | PStr string | PList "int list"

type_synonym pydict = "string \<rightharpoonup> pyval"

text \<open>\<^verbatim>\<open>d.setdefault(k, v)\<close>: stores \<open>v\<close> only when \<open>k\<close> is not yet a key.\<close>

definition setdefault :: "string \<Rightarrow> pyval \<Rightarrow> pydict \<Rightarrow> pydict" where
  "setdefault k v d = (case d k of None \<Rightarrow> d(k \<mapsto> v) | Some old \<Rightarrow> d)"

text \<open>
  What a collaborator raises is either derived from \<^verbatim>\<open>Exception\<close>, and then caught by
  the handlers' \<^verbatim>\<open>except Exception\<close> clauses, or it is another \<^verbatim>\<open>BaseException\<close>
  (\<^verbatim>\<open>SystemExit\<close>, \<^verbatim>\<open>KeyboardInterrupt\<close>, ...), which those clauses let through.
  Both carry \<^verbatim>\<open>str(exc)\<close>.
\<close>

datatype raised = Exception string | BaseException string

text \<open>
  A handler ends either with its response or with an error: the \<^verbatim>\<open>HTTPException\<close>
  it raises (status code and detail), FastAPI's request validation error, raised by
  the framework before the handler body runs when a \<^verbatim>\<open>Query\<close> bound is violated, or
  a raise that no clause of the handler catches and that leaves it as it is.
\<close>

datatype http_error = HTTPException nat string | RequestValidationError | Uncaught string

text \<open>
  \<^verbatim>\<open>Query(default, ge=lo, le=hi)\<close> on an \<^verbatim>\<open>int\<close> parameter: an absent parameter
  takes the default, a present one must lie within the bounds.
\<close>

definition Query :: "int \<Rightarrow> int \<Rightarrow> int \<Rightarrow> int option \<Rightarrow> http_error + int" where
  "Query dflt lo hi raw =
     (case raw of
        None \<Rightarrow> Inr dflt
      | Some v \<Rightarrow> if lo \<le> v \<and> v \<le> hi then Inr v else Inl RequestValidationError)"

section \<open>The progress tracker\<close>

text \<open>
  Modelled from the spec: \<^verbatim>\<open>backend/core/progress_state.py\<close> is imported by both route
  modules but is not among the source files. Section 4.2 of the specification gives its
  contract, which the definitions below follow word for word: \<open>start\<close> creates or
  replaces the entry as running with \<open>current = 0\<close> and no error; \<open>set_message\<close>,
  \<open>finish\<close> and \<open>fail\<close> are silent no-ops on an absent entry, and \<open>finish\<close> and
  \<open>fail\<close> on an entry that is not running; \<open>clear\<close> removes the entry whatever its
  state; \<open>snapshot\<close> is a copy. None of them raises. The registry is a dictionary of
  named entries, kept as an association list because the status handler iterates over
  its values.
\<close>

datatype progress_status = Idle | Running | Succeeded | Failed

record progress_entry =
  entry_status :: progress_status
  entry_total :: nat
  entry_current :: nat
  entry_message :: string
  entry_error :: "string option"

type_synonym tracker = "(string \<times> progress_entry) list"

definition start_progress :: "string \<Rightarrow> nat \<Rightarrow> tracker \<Rightarrow> tracker" where
  "start_progress name n t =
     AList.update name
       \<lparr>entry_status = Running, entry_total = n, entry_current = 0,
        entry_message = [], entry_error = None\<rparr> t"

definition set_progress_message :: "string \<Rightarrow> string \<Rightarrow> tracker \<Rightarrow> tracker" where
  "set_progress_message name txt t =
     (case map_of t name of
        None \<Rightarrow> t
      | Some e \<Rightarrow> AList.update name (e\<lparr>entry_message := txt\<rparr>) t)"

definition finish_progress :: "string \<Rightarrow> tracker \<Rightarrow> tracker" where
  "finish_progress name t =
     (case map_of t name of
        None \<Rightarrow> t
      | Some e \<Rightarrow>
          if entry_status e = Running
          then AList.update name (e\<lparr>entry_status := Succeeded\<rparr>) t
          else t)"

definition fail_progress :: "string \<Rightarrow> string \<Rightarrow> tracker \<Rightarrow> tracker" where
  "fail_progress name detail t =
     (case map_of t name of
        None \<Rightarrow> t
      | Some e \<Rightarrow>
          if entry_status e = Running
          then AList.update name (e\<lparr>entry_status := Failed, entry_error := Some detail\<rparr>) t
          else t)"

definition clear_progress :: "string \<Rightarrow> tracker \<Rightarrow> tracker" where
  "clear_progress name t = AList.delete name t"

definition get_progress_snapshot :: "tracker \<Rightarrow> tracker" where
  "get_progress_snapshot t = t"

section \<open>The collaborators in \<^verbatim>\<open>core.sync_service\<close>\<close>

text \<open>
  Modelled from the spec: \<^verbatim>\<open>backend/core/models.py\<close> is not among the source files. An
  event carries its identifier, the tag of the system it came from and its timestamp
  (section 3 of the specification); timestamps are integers, later ones larger.
\<close>

record event =
  event_id :: int
  source_system :: string
  created_at :: int

text \<open>
  The functions the handlers import from \<^verbatim>\<open>core.sync_service\<close> talk to the two external
  systems and to the database, so they are parameters of the model. A scrape and the
  creation service run with the tracker (the engine advances progress while it works) and
  either return a value or raise; computing the missing ids is a pure read of the store
  (section 4.4 b), which may raise as well.
\<close>

record core =
  scrape_famly_and_store :: "int \<Rightarrow> tracker \<Rightarrow> (raised + event list) \<times> tracker"
  scrape_babyconnect_and_store :: "int \<Rightarrow> tracker \<Rightarrow> (raised + event list) \<times> tracker"
  get_missing_famly_event_ids :: "raised + int list"
  create_entries_service :: "int list \<Rightarrow> tracker \<Rightarrow> (raised + pydict) \<times> tracker"

section \<open>The state of the process\<close>

text \<open>
  The module-level lock \<^verbatim>\<open>_SYNC_LOCK\<close> (held or free) and the tracker are the mutable
  state of the process. The third field is a log of the calls made into
  \<^verbatim>\<open>core.sync_service\<close>, each with the lock and the tracker as they stand at the moment
  of the call: it is what an observer of the process sees while that call runs.
\<close>

datatype callee =
    Call_scrape_famly int
  | Call_scrape_babyconnect int
  | Call_get_missing
  | Call_create_entries "int list"

record sys =
  sync_lock :: bool
  progress :: tracker
  calls :: "(callee \<times> bool \<times> tracker) list"

definition record_call :: "callee \<Rightarrow> sys \<Rightarrow> sys" where
  "record_call c s = s\<lparr>calls := calls s @ [(c, sync_lock s, progress s)]\<rparr>"

definition on_progress :: "(tracker \<Rightarrow> tracker) \<Rightarrow> sys \<Rightarrow> sys" where
  "on_progress f s = s\<lparr>progress := f (progress s)\<rparr>"

text \<open>
  \<^verbatim>\<open>_acquire_sync_lock\<close>: a non-blocking acquire; when the lock is taken the handler
  raises 409. \<^verbatim>\<open>_release_sync_lock\<close>: releases only a lock that is held.
\<close>

definition acquire_sync_lock :: "sys \<Rightarrow> http_error + sys" where
  "acquire_sync_lock s =
     (if sync_lock s
      then Inl (HTTPException 409 ''Sync already in progress. Please wait for it to finish.'')
      else Inr (s\<lparr>sync_lock := True\<rparr>))"

definition release_sync_lock :: "sys \<Rightarrow> sys" where
  "release_sync_lock s = (if sync_lock s then s\<lparr>sync_lock := False\<rparr> else s)"

text \<open>Calling a scrape or the creation service: the call is logged, then it runs.\<close>

definition call_scrape_famly :: "core \<Rightarrow> int \<Rightarrow> sys \<Rightarrow> (raised + event list) \<times> sys" where
  "call_scrape_famly c d s =
     (let s1 = record_call (Call_scrape_famly d) s;
          r = scrape_famly_and_store c d (progress s1)
      in (fst r, s1\<lparr>progress := snd r\<rparr>))"


definition call_get_missing :: "core \<Rightarrow> sys \<Rightarrow> (raised + int list) \<times> sys" where
  "call_get_missing c s = (get_missing_famly_event_ids c, record_call Call_get_missing s)"

definition call_create_entries :: "core \<Rightarrow> int list \<Rightarrow> sys \<Rightarrow> (raised + pydict) \<times> sys" where
  "call_create_entries c ids s =
     (let s1 = record_call (Call_create_entries ids) s;
          r = create_entries_service c ids (progress s1)
      in (fst r, s1\<lparr>progress := snd r\<rparr>))"

section \<open>The handlers of \<^verbatim>\<open>routes_sync.py\<close>\<close>

definition scrape_progress :: "sys \<Rightarrow> tracker" where
  "scrape_progress s = get_progress_snapshot (progress s)"



text \<open>
  The \<^verbatim>\<open>finally\<close> block that closes both creating handlers: \<^verbatim>\<open>finish_progress\<close>
  only after a success, then \<^verbatim>\<open>clear_progress\<close> and the release of the lock. It
  runs on every way out of the \<^verbatim>\<open>try\<close>, a raise that \<^verbatim>\<open>except Exception\<close> does not
  catch included; \<^verbatim>\<open>fail_progress\<close> belongs to the \<^verbatim>\<open>except\<close> clause only.
\<close>

definition finally_sync :: "bool \<Rightarrow> sys \<Rightarrow> sys" where
  "finally_sync success s =
     release_sync_lock
       (on_progress (clear_progress ''sync'')
          (if success then on_progress (finish_progress ''sync'') s else s))"

definition create_babyconnect_entries ::
  "core \<Rightarrow> int list \<Rightarrow> sys \<Rightarrow> (http_error + pydict) \<times> sys" where
  "create_babyconnect_entries c event_ids s =
     (case acquire_sync_lock s of
        Inl e \<Rightarrow> (Inl e, s)
      | Inr s1 \<Rightarrow>
          (let s2 = on_progress (start_progress ''sync'' (length event_ids)) s1;
               s3 = on_progress (set_progress_message ''sync'' ''Syncing selected entries...'') s2
           in (case call_create_entries c event_ids s3 of
                 (Inr result, s4) \<Rightarrow>
                   (Inr (setdefault ''synced_event_ids'' (PList event_ids) result),
                    finally_sync True s4)
               | (Inl (Exception exc), s4) \<Rightarrow>
                   (Inl (HTTPException 500 exc),
                    finally_sync False (on_progress (fail_progress ''sync'' exc) s4))
               | (Inl (BaseException exc), s4) \<Rightarrow>
                   (Inl (Uncaught exc), finally_sync False s4))))"

text \<open>
  In \<^verbatim>\<open>sync_missing_entries\<close> the first \<^verbatim>\<open>try\<close> (lines 119 to 124) has an
  \<^verbatim>\<open>except Exception\<close> clause that releases the lock, and no \<^verbatim>\<open>finally\<close>: a raise
  it does not catch leaves the handler with the lock as it is. The second \<^verbatim>\<open>try\<close>
  ends with the \<^verbatim>\<open>finally\<close> block above.
\<close>

definition sync_missing_entries :: "core \<Rightarrow> sys \<Rightarrow> (http_error + pydict) \<times> sys" where
  "sync_missing_entries c s =
     (case acquire_sync_lock s of
        Inl e \<Rightarrow> (Inl e, s)
      | Inr s1 \<Rightarrow>
          (case call_get_missing c s1 of
             (Inl (Exception exc), s2) \<Rightarrow> (Inl (HTTPException 500 exc), release_sync_lock s2)
           | (Inl (BaseException exc), s2) \<Rightarrow> (Inl (Uncaught exc), s2)
           | (Inr missing_ids, s2) \<Rightarrow>
               if missing_ids = []
               then (Inr [''status'' \<mapsto> PStr ''ok'', ''created'' \<mapsto> PInt 0,
                          ''missing_event_ids'' \<mapsto> PList []],
                     release_sync_lock s2)
               else
                 (let s3 = on_progress (start_progress ''sync'' (length missing_ids)) s2;
                      s4 = on_progress
                             (set_progress_message ''sync'' ''Syncing missing entries...'') s3
                  in (case call_create_entries c missing_ids s4 of
                        (Inr result, s5) \<Rightarrow>
                          (Inr (setdefault ''synced_event_ids'' (PList missing_ids)
                                  ((setdefault ''status'' (PStr ''ok'') result)
                                     (''missing_event_ids'' \<mapsto> PList missing_ids))),
                           finally_sync True s5)
                      | (Inl (Exception exc), s5) \<Rightarrow>
                          (Inl (HTTPException 500 exc),
                           finally_sync False (on_progress (fail_progress ''sync'' exc) s5))
                      | (Inl (BaseException exc), s5) \<Rightarrow>
                          (Inl (Uncaught exc), finally_sync False s5)))))"

section \<open>The handlers of \<^verbatim>\<open>routes_homeassistant.py\<close>\<close>

text \<open>
  \<^verbatim>\<open>value.isoformat()\<close> is the standard library's rendering of a timestamp; the model
  keeps the rendered string symbolic.
\<close>

datatype iso8601 = Isoformat int

definition format_timestamp :: "int option \<Rightarrow> iso8601 option" where
  "format_timestamp v = (case v of None \<Rightarrow> None | Some t \<Rightarrow> Some (Isoformat t))"

text \<open>
  \<^verbatim>\<open>_latest_event_timestamp\<close>: the SQL \<^verbatim>\<open>max(created_at)\<close> over the stored events of
  one source system, \<^verbatim>\<open>None\<close> when there is none.
\<close>

definition latest_event_timestamp :: "event list \<Rightarrow> string \<Rightarrow> int option" where
  "latest_event_timestamp store src =
     (case map created_at (filter (\<lambda>e. source_system e = src) store) of
        [] \<Rightarrow> None
      | t # ts \<Rightarrow> Some (fold max ts t))"

text \<open>Python's \<^verbatim>\<open>a or b\<close> on optional timestamps (a timestamp is always truthy).\<close>

definition py_or :: "int option \<Rightarrow> int option \<Rightarrow> int option" where
  "py_or a b = (case a of None \<Rightarrow> b | Some t \<Rightarrow> Some t)"

record status_response =
  last_sync_at :: "iso8601 option"
  famly_last_scrape_at :: "iso8601 option"
  baby_connect_last_scrape_at :: "iso8601 option"
  sync_in_progress :: bool
  sync_status :: string
  progress_of :: tracker

definition homeassistant_status :: "event list \<Rightarrow> sys \<Rightarrow> status_response" where
  "homeassistant_status store s =
     (let progress_snapshot = get_progress_snapshot (progress s);
          in_progress = list_ex (\<lambda>state. entry_status state = Running)
                          (map snd progress_snapshot);
          famly_last = latest_event_timestamp store ''famly'';
          baby_last = latest_event_timestamp store ''baby_connect'';
          last_sync = py_or baby_last famly_last
      in \<lparr>last_sync_at = format_timestamp last_sync,
          famly_last_scrape_at = format_timestamp famly_last,
          baby_connect_last_scrape_at = format_timestamp baby_last,
          sync_in_progress = in_progress,
          sync_status = (if in_progress then ''running'' else ''idle''),
          progress_of = progress_snapshot\<rparr>)"

text \<open>
  \<^verbatim>\<open>homeassistant_run\<close> from line 77 on: what the handler does once the scrape has
  returned its events.
\<close>

definition homeassistant_run_sync ::
  "core \<Rightarrow> int \<Rightarrow> event list \<Rightarrow> sys \<Rightarrow> (http_error + pydict) \<times> sys" where
  "homeassistant_run_sync c days_back events s1 =
     (case call_get_missing c s1 of
        (Inl (Exception exc), s2) \<Rightarrow>
          (Inl (HTTPException 500 (''Failed to determine missing events: '' @ exc)), s2)
      | (Inl (BaseException exc), s2) \<Rightarrow> (Inl (Uncaught exc), s2)
      | (Inr missing_ids, s2) \<Rightarrow>
          (let response =
                 [''scraped_count'' \<mapsto> PInt (int (length events)),
                  ''days_back'' \<mapsto> PInt days_back,
                  ''missing_event_ids'' \<mapsto> PList missing_ids,
                  ''synced_event_ids'' \<mapsto> PList [],
                  ''status'' \<mapsto> PStr ''ok'',
                  ''created'' \<mapsto> PInt 0]
           in if missing_ids \<noteq> []
              then (case call_create_entries c missing_ids s2 of
                      (Inl (Exception exc), s3) \<Rightarrow>
                        (Inl (HTTPException 500
                                (''Syncing missing events failed: '' @ exc)), s3)
                    | (Inl (BaseException exc), s3) \<Rightarrow> (Inl (Uncaught exc), s3)
                    | (Inr result, s3) \<Rightarrow>
                        (Inr (setdefault ''synced_event_ids'' (PList missing_ids)
                                (response ++ result)), s3))
              else (Inr response, s2)))"

definition homeassistant_run :: "core \<Rightarrow> int option \<Rightarrow> sys \<Rightarrow> (http_error + pydict) \<times> sys" where
  "homeassistant_run c raw s =
     (case Query 1 0 7 raw of
        Inl e \<Rightarrow> (Inl e, s)
      | Inr days_back \<Rightarrow>
          (case call_scrape_famly c days_back s of
             (Inl (Exception exc), s1) \<Rightarrow>
               (Inl (HTTPException 500 (''Famly scrape failed: '' @ exc)), s1)
           | (Inl (BaseException exc), s1) \<Rightarrow> (Inl (Uncaught exc), s1)
           | (Inr events, s1) \<Rightarrow> homeassistant_run_sync c days_back events s1))"

section \<open>Observations and example inputs\<close>



text \<open>
  What the status handler would answer for \<^verbatim>\<open>sync_in_progress\<close> while each logged call
  runs: the handler applied to the lock and tracker of that moment.
\<close>

definition status_during :: "event list \<Rightarrow> sys \<Rightarrow> (callee \<times> bool) list" where
  "status_during store s =
     map (\<lambda>(k, g, t). (k, sync_in_progress
            (homeassistant_status store \<lparr>sync_lock = g, progress = t, calls = []\<rparr>)))
       (calls s)"

text \<open>
  Example inputs. In \<open>example_core\<close> both scrapes find nothing, the events 1 and 2 are
  missing and the creation service succeeds, answering \<^verbatim>\<open>{"created": n}\<close>; the other
  cores differ from it in the collaborators they name. In \<open>counting_core\<close> a scrape of
  \<open>d\<close> days back finds \<open>d\<close> events and nothing is missing.
\<close>

definition example_core :: core where
  "example_core =
     \<lparr>scrape_famly_and_store = (\<lambda>d t. (Inr [], t)),
      scrape_babyconnect_and_store = (\<lambda>d t. (Inr [], t)),
      get_missing_famly_event_ids = Inr [1, 2],
      create_entries_service = (\<lambda>ids t. (Inr [''created'' \<mapsto> PInt (int (length ids))], t))\<rparr>"

definition nothing_missing_core :: core where
  "nothing_missing_core = example_core\<lparr>get_missing_famly_event_ids := Inr []\<rparr>"

definition missing_fails_core :: core where
  "missing_fails_core =
     example_core\<lparr>get_missing_famly_event_ids := Inl (Exception ''database is locked'')\<rparr>"

definition missing_exits_core :: core where
  "missing_exits_core =
     example_core\<lparr>get_missing_famly_event_ids := Inl (BaseException ''SystemExit'')\<rparr>"

definition create_fails_core :: core where
  "create_fails_core =
     example_core\<lparr>create_entries_service := (\<lambda>ids t. (Inl (Exception ''login failed''), t))\<rparr>"

definition create_exits_core :: core where
  "create_exits_core =
     example_core\<lparr>create_entries_service := (\<lambda>ids t. (Inl (BaseException ''SystemExit''), t))\<rparr>"



definition idle_sys :: sys where
  "idle_sys = \<lparr>sync_lock = False, progress = [], calls = []\<rparr>"

definition busy_sys :: sys where
  "busy_sys = \<lparr>sync_lock = True, progress = [], calls = []\<rparr>"

definition example_store :: "event list" where
  "example_store =
     [\<lparr>event_id = 1, source_system = ''famly'', created_at = 5\<rparr>,
      \<lparr>event_id = 1, source_system = ''baby_connect'', created_at = 3\<rparr>]"

definition famly_only_store :: "event list" where
  "famly_only_store = [\<lparr>event_id = 1, source_system = ''famly'', created_at = 5\<rparr>]"

definition converged_store :: "event list" where
  "converged_store =
     [\<lparr>event_id = 1, source_system = ''famly'', created_at = 5\<rparr>,
      \<lparr>event_id = 1, source_system = ''baby_connect'', created_at = 8\<rparr>]"

section \<open>Auxiliary facts\<close>

lemma sys_simps [simp]:
  "sync_lock (record_call k s) = sync_lock s"
  "progress (record_call k s) = progress s"
  "calls (record_call k s) = calls s @ [(k, sync_lock s, progress s)]"
  "sync_lock (on_progress f s) = sync_lock s"
  "progress (on_progress f s) = f (progress s)"
  "calls (on_progress f s) = calls s"
  "sync_lock (release_sync_lock s) = False"
  "progress (release_sync_lock s) = progress s"
  "calls (release_sync_lock s) = calls s"
  by (simp_all add: record_call_def on_progress_def release_sync_lock_def)

lemma finally_sync_simps:
  "sync_lock (finally_sync b s) = False"
  "calls (finally_sync b s) = calls s"
  "map_of (progress (finally_sync b s)) ''sync'' = None"
  by (simp_all add: finally_sync_def clear_progress_def delete_conv)

text \<open>The trimmed run, unfolded along the path that reaches the replay.\<close>

lemma homeassistant_run_replay:
  assumes q: "Query 1 0 7 raw = Inr d"
    and sc: "scrape_famly_and_store c d (progress s) = (Inr events, t1)"
    and mi: "get_missing_famly_event_ids c = Inr ids" and ne: "ids \<noteq> []"
  shows "homeassistant_run c raw s =
     (case call_create_entries c ids
             (record_call Call_get_missing
                (record_call (Call_scrape_famly d) s\<lparr>progress := t1\<rparr>)) of
        (Inl (Exception exc), s3) \<Rightarrow>
          (Inl (HTTPException 500 (''Syncing missing events failed: '' @ exc)), s3)
      | (Inl (BaseException exc), s3) \<Rightarrow> (Inl (Uncaught exc), s3)
      | (Inr result, s3) \<Rightarrow>
          (Inr (setdefault ''synced_event_ids'' (PList ids)
                  ([''scraped_count'' \<mapsto> PInt (int (length events)),
                    ''days_back'' \<mapsto> PInt d,
                    ''missing_event_ids'' \<mapsto> PList ids,
                    ''synced_event_ids'' \<mapsto> PList [],
                    ''status'' \<mapsto> PStr ''ok'',
                    ''created'' \<mapsto> PInt 0] ++ result)), s3))"
  using q sc mi ne
  by (simp add: homeassistant_run_def homeassistant_run_sync_def call_scrape_famly_def
      call_get_missing_def Let_def)

text \<open>
  With a creation service that does not report synced ids of its own, the two creating
  handlers of \<^verbatim>\<open>routes_sync.py\<close> report every id they replayed, and the created count
  of the service.
\<close>

lemma routes_sync_report_all_ids:
  assumes "\<not> sync_lock s"
  shows "create_entries_service c event_ids
           (set_progress_message ''sync'' ''Syncing selected entries...''
              (start_progress ''sync'' (length event_ids) (progress s))) = (Inr result, t2) \<Longrightarrow>
         result ''synced_event_ids'' = None \<Longrightarrow>
         \<exists>resp. fst (create_babyconnect_entries c event_ids s) = Inr resp \<and>
           resp ''synced_event_ids'' = Some (PList event_ids) \<and>
           resp ''created'' = result ''created''"
    and "get_missing_famly_event_ids c = Inr ids \<Longrightarrow> ids \<noteq> [] \<Longrightarrow>
         create_entries_service c ids
           (set_progress_message ''sync'' ''Syncing missing entries...''
              (start_progress ''sync'' (length ids) (progress s))) = (Inr result, t2) \<Longrightarrow>
         result ''synced_event_ids'' = None \<Longrightarrow>
         \<exists>resp. fst (sync_missing_entries c s) = Inr resp \<and>
           resp ''synced_event_ids'' = Some (PList ids) \<and>
           resp ''missing_event_ids'' = Some (PList ids) \<and>
           resp ''created'' = result ''created''"
  using assms
  by (simp_all add: create_babyconnect_entries_def sync_missing_entries_def acquire_sync_lock_def
      call_get_missing_def call_create_entries_def Let_def record_call_def on_progress_def
      setdefault_def split: option.splits)

text \<open>
  While the creation service runs for one of the two creating handlers, the lock is held
  and the \<open>sync\<close> entry is running, so the status handler reports a sync in progress.
\<close>

lemma routes_sync_replay_under_gate:
  "status_during [] (snd (create_babyconnect_entries example_core [1, 2] idle_sys)) =
     [(Call_create_entries [1, 2], True)] \<and>
   map (\<lambda>(k, g, t). (k, g)) (calls (snd (sync_missing_entries example_core idle_sys))) =
     [(Call_get_missing, True), (Call_create_entries [1, 2], True)] \<and>
   status_during [] (snd (sync_missing_entries example_core idle_sys)) =
     [(Call_get_missing, False), (Call_create_entries [1, 2], True)]"
  by (simp add: create_babyconnect_entries_def sync_missing_entries_def acquire_sync_lock_def
      call_get_missing_def call_create_entries_def Let_def record_call_def on_progress_def
      example_core_def idle_sys_def status_during_def homeassistant_status_def
      get_progress_snapshot_def start_progress_def set_progress_message_def finally_sync_def
      finish_progress_def clear_progress_def release_sync_lock_def)

section \<open>The single-flight gate\<close>

text \<open>
  Claim C1 says that every code path invoking the record-creation replay holds the gate
  for the whole replay, the trimmed Home Assistant run included. The handler
  \<^verbatim>\<open>homeassistant_run\<close> never touches the lock: whenever its scrape succeeds and ids are
  missing, it calls the creation service with the lock exactly as it found it, and leaves
  it so. Started while another request holds the gate, it replays all the same.
\<close>

theorem homeassistant_run_bypasses_gate:
  assumes "Query 1 0 7 raw = Inr d"
    and "scrape_famly_and_store c d (progress s) = (Inr events, t1)"
    and "get_missing_famly_event_ids c = Inr ids" and "ids \<noteq> []"
  shows "sync_lock (snd (homeassistant_run c raw s)) = sync_lock s \<and>
         calls (snd (homeassistant_run c raw s)) =
           calls s @ [(Call_scrape_famly d, sync_lock s, progress s),
                      (Call_get_missing, sync_lock s, t1),
                      (Call_create_entries ids, sync_lock s, t1)]"
  unfolding homeassistant_run_replay [OF assms]
  by (simp add: call_create_entries_def Let_def record_call_def split: sum.splits prod.splits raised.splits)

theorem homeassistant_run_bypasses_gate_witness:
  "Query 1 0 7 (Some 1) = Inr 1 \<and>
   scrape_famly_and_store example_core 1 (progress busy_sys) = (Inr [], []) \<and>
   get_missing_famly_event_ids example_core = Inr [1, 2] \<and> [1, 2 :: int] \<noteq> [] \<and>
   sync_lock busy_sys \<and>
   sync_lock (snd (homeassistant_run example_core (Some 1) busy_sys)) \<and>
   calls (snd (homeassistant_run example_core (Some 1) busy_sys)) =
     [(Call_scrape_famly 1, True, []), (Call_get_missing, True, []),
      (Call_create_entries [1, 2], True, [])]"
  using homeassistant_run_bypasses_gate [of "Some 1" 1 example_core busy_sys "[]" "[]" "[1, 2]"]
  by (simp add: Query_def example_core_def busy_sys_def)

section \<open>The status summary\<close>

text \<open>
  With a Famly event ingested at 5 and a Baby Connect event at 3, the status handler
  reports 3, which is not the more recent of the two.
\<close>

theorem last_sync_at_not_most_recent:
  "latest_event_timestamp example_store ''famly'' = Some 5 \<and>
   latest_event_timestamp example_store ''baby_connect'' = Some 3 \<and>
   last_sync_at (homeassistant_status example_store idle_sys) = Some (Isoformat 3) \<and>
   last_sync_at (homeassistant_status example_store idle_sys) \<noteq> Some (Isoformat (max 5 3))"
  by (simp add: homeassistant_status_def latest_event_timestamp_def example_store_def
      py_or_def format_timestamp_def Let_def get_progress_snapshot_def)

text \<open>
  Claim C2, as amended: \<^verbatim>\<open>last_sync_at\<close> is the Baby Connect timestamp whenever there
  is one, and the Famly timestamp (or nothing) otherwise. It is the more recent of the two
  when the Baby Connect timestamp is not the earlier one.
\<close>

theorem last_sync_at_target_first:
  "(latest_event_timestamp store ''baby_connect'' = Some b \<longrightarrow>
      last_sync_at (homeassistant_status store s) = Some (Isoformat b)) \<and>
   (latest_event_timestamp store ''baby_connect'' = None \<longrightarrow>
      last_sync_at (homeassistant_status store s) =
        format_timestamp (latest_event_timestamp store ''famly'')) \<and>
   (latest_event_timestamp store ''baby_connect'' = Some b \<and>
    latest_event_timestamp store ''famly'' = Some f \<and> f \<le> b \<longrightarrow>
      last_sync_at (homeassistant_status store s) = Some (Isoformat (max f b)))"
  by (simp add: homeassistant_status_def py_or_def format_timestamp_def Let_def max_def)

theorem last_sync_at_target_first_witness:
  "latest_event_timestamp example_store ''baby_connect'' = Some 3 \<and>
   last_sync_at (homeassistant_status example_store idle_sys) = Some (Isoformat 3) \<and>
   latest_event_timestamp famly_only_store ''baby_connect'' = None \<and>
   last_sync_at (homeassistant_status famly_only_store idle_sys) = Some (Isoformat 5) \<and>
   latest_event_timestamp converged_store ''baby_connect'' = Some 8 \<and>
   latest_event_timestamp converged_store ''famly'' = Some 5 \<and> (5 :: int) \<le> 8 \<and>
   last_sync_at (homeassistant_status converged_store idle_sys) = Some (Isoformat (max 5 8))"
  using last_sync_at_target_first [of example_store 3 idle_sys 5]
    last_sync_at_target_first [of famly_only_store 0 idle_sys 0]
    last_sync_at_target_first [of converged_store 8 idle_sys 5]
  by (simp add: latest_event_timestamp_def example_store_def famly_only_store_def
      converged_store_def format_timestamp_def)

section \<open>What a run reports\<close>

text \<open>
  Claim C3 says that a successful run reports the created count and, as
  \<^verbatim>\<open>synced_event_ids\<close>, the full list of replayed ids. The trimmed run puts
  \<^verbatim>\<open>synced_event_ids = []\<close> into its response before the replay, so its later
  \<^verbatim>\<open>setdefault\<close> finds the key present: when the creation service does not report the
  ids itself, the response of a successful replay of a non-empty list carries the empty
  list. The created count is the service's, or 0 when it gives none.
\<close>

theorem homeassistant_run_reports_no_synced_ids:
  assumes "Query 1 0 7 raw = Inr d"
    and "scrape_famly_and_store c d (progress s) = (Inr events, t1)"
    and "get_missing_famly_event_ids c = Inr ids" and "ids \<noteq> []"
    and "create_entries_service c ids t1 = (Inr result, t2)"
    and "result ''synced_event_ids'' = None"
  shows "\<exists>resp. fst (homeassistant_run c raw s) = Inr resp \<and>
           resp ''synced_event_ids'' = Some (PList []) \<and>
           resp ''created'' = (case result ''created'' of None \<Rightarrow> Some (PInt 0) | Some v \<Rightarrow> Some v)"
  unfolding homeassistant_run_replay [OF assms(1-4)]
  using assms(5,6)
  by (simp add: call_create_entries_def Let_def record_call_def setdefault_def map_add_def
      split: option.splits)

theorem homeassistant_run_reports_no_synced_ids_witness:
  "Query 1 0 7 (Some 1) = Inr 1 \<and>
   scrape_famly_and_store example_core 1 (progress idle_sys) = (Inr [], []) \<and>
   get_missing_famly_event_ids example_core = Inr [1, 2] \<and> [1, 2 :: int] \<noteq> [] \<and>
   create_entries_service example_core [1, 2] [] = (Inr [''created'' \<mapsto> PInt 2], []) \<and>
   [''created'' \<mapsto> PInt 2] ''synced_event_ids'' = None \<and>
   (\<exists>resp. fst (homeassistant_run example_core (Some 1) idle_sys) = Inr resp \<and>
      resp ''synced_event_ids'' = Some (PList []) \<and> resp ''created'' = Some (PInt 2))"
  using homeassistant_run_reports_no_synced_ids
    [of "Some 1" 1 example_core idle_sys "[]" "[]" "[1, 2]" "[''created'' \<mapsto> PInt 2]" "[]"]
  by (simp add: Query_def example_core_def idle_sys_def)

section \<open>Progress during the trimmed run\<close>

text \<open>
  In the example the trimmed run replays the ids 1 and 2 with an empty tracker: no
  \<open>sync\<close> entry exists while the creation service runs, and the status handler reports
  no sync in progress at that moment. The sibling handler \<^verbatim>\<open>sync_missing_entries\<close>
  runs the same replay with the \<open>sync\<close> entry started (\<open>routes_sync_replay_under_gate\<close>).
\<close>

lemma homeassistant_run_no_sync_entry:
  "calls (snd (homeassistant_run example_core (Some 1) idle_sys)) =
     [(Call_scrape_famly 1, False, []), (Call_get_missing, False, []),
      (Call_create_entries [1, 2], False, [])] \<and>
   status_during [] (snd (homeassistant_run example_core (Some 1) idle_sys)) =
     [(Call_scrape_famly 1, False), (Call_get_missing, False),
      (Call_create_entries [1, 2], False)]"
  by (simp add: homeassistant_run_def homeassistant_run_sync_def Query_def example_core_def
      idle_sys_def call_scrape_famly_def call_get_missing_def call_create_entries_def
      record_call_def Let_def status_during_def homeassistant_status_def
      get_progress_snapshot_def)

text \<open>
  Claim C4 says that the replay stage of the trimmed run starts a \<open>sync\<close> progress entry
  with the number of missing ids as its total before any write to the target system, and
  clears it afterwards. The handler does neither: whenever its scrape succeeds and ids are
  missing, the tracker the creation service runs with is the one the Famly scrape left,
  and the tracker after the run is the one the creation service left. No \<open>sync\<close> entry
  is started or cleared by \<^verbatim>\<open>homeassistant_run\<close>.
\<close>

theorem homeassistant_run_leaves_tracker_to_core:
  assumes "Query 1 0 7 raw = Inr d"
    and "scrape_famly_and_store c d (progress s) = (Inr events, t1)"
    and "get_missing_famly_event_ids c = Inr ids" and "ids \<noteq> []"
  shows "last (calls (snd (homeassistant_run c raw s))) = (Call_create_entries ids, sync_lock s, t1) \<and>
         progress (snd (homeassistant_run c raw s)) = snd (create_entries_service c ids t1)"
  unfolding homeassistant_run_replay [OF assms]
  by (simp add: call_create_entries_def Let_def record_call_def split: sum.splits prod.splits raised.splits)

theorem homeassistant_run_leaves_tracker_to_core_witness:
  "Query 1 0 7 (Some 1) = Inr 1 \<and>
   scrape_famly_and_store example_core 1 (progress idle_sys) = (Inr [], []) \<and>
   get_missing_famly_event_ids example_core = Inr [1, 2] \<and> [1, 2 :: int] \<noteq> [] \<and>
   last (calls (snd (homeassistant_run example_core (Some 1) idle_sys))) =
     (Call_create_entries [1, 2], False, []) \<and>
   progress (snd (homeassistant_run example_core (Some 1) idle_sys)) = []"
  using homeassistant_run_leaves_tracker_to_core
    [of "Some 1" 1 example_core idle_sys "[]" "[]" "[1, 2]"]
  by (simp add: Query_def example_core_def idle_sys_def)

section \<open>Syncing the missing entries\<close>

text \<open>
  With nothing missing and the lock free, \<^verbatim>\<open>sync_missing_entries\<close> computes the
  missing ids while it holds the lock: a request to create entries that arrives at that
  moment is refused with the 409 error.
\<close>

theorem sync_missing_holds_gate_while_computing:
  "get_missing_famly_event_ids nothing_missing_core = Inr [] \<and>
   calls (snd (sync_missing_entries nothing_missing_core idle_sys)) =
     [(Call_get_missing, True, [])] \<and>
   fst (create_babyconnect_entries example_core [7]
          \<lparr>sync_lock = True, progress = [], calls = []\<rparr>) =
     Inl (HTTPException 409 ''Sync already in progress. Please wait for it to finish.'')"
  by (simp add: sync_missing_entries_def create_babyconnect_entries_def acquire_sync_lock_def
      call_get_missing_def record_call_def release_sync_lock_def nothing_missing_core_def
      example_core_def idle_sys_def)

text \<open>
  Claim C5, as amended: when nothing is missing, \<^verbatim>\<open>sync_missing_entries\<close> answers
  exactly \<^verbatim>\<open>{"status": "ok", "created": 0, "missing_event_ids": []}\<close>. Its only call
  into the core is the computation of the missing ids: the creation service is not called
  and the tracker is untouched. The handler takes the lock before that computation and
  releases it before it returns, so the lock is held while the missing ids are computed
  and free again afterwards: the state after the call is the state before it, but for
  the log.
\<close>

theorem sync_missing_nothing_to_do:
  assumes "\<not> sync_lock s" and "get_missing_famly_event_ids c = Inr []"
  shows "sync_missing_entries c s =
           (Inr [''status'' \<mapsto> PStr ''ok'', ''created'' \<mapsto> PInt 0,
                 ''missing_event_ids'' \<mapsto> PList []],
            s\<lparr>calls := calls s @ [(Call_get_missing, True, progress s)]\<rparr>)"
  using assms
  by (simp add: sync_missing_entries_def acquire_sync_lock_def call_get_missing_def
      record_call_def release_sync_lock_def)

theorem sync_missing_nothing_to_do_witness:
  "\<not> sync_lock idle_sys \<and>
   get_missing_famly_event_ids nothing_missing_core = Inr [] \<and>
   sync_missing_entries nothing_missing_core idle_sys =
     (Inr [''status'' \<mapsto> PStr ''ok'', ''created'' \<mapsto> PInt 0,
           ''missing_event_ids'' \<mapsto> PList []],
      \<lparr>sync_lock = False, progress = [], calls = [(Call_get_missing, True, [])]\<rparr>)"
  using sync_missing_nothing_to_do [of idle_sys nothing_missing_core]
  by (simp add: idle_sys_def nothing_missing_core_def)

text \<open>
  On every way out but one, a call of \<^verbatim>\<open>create_babyconnect_entries\<close> or
  \<^verbatim>\<open>sync_missing_entries\<close> that acquired the lock leaves it free: success, a failure
  of the replay (caught or not), a caught failure while the missing ids are computed,
  and the exit with nothing missing.
\<close>

lemma gate_released_unless_uncaught:
  assumes "\<not> sync_lock s"
  shows "\<not> sync_lock (snd (create_babyconnect_entries c event_ids s))"
    and "(case get_missing_famly_event_ids c of Inl (BaseException e) \<Rightarrow> False | _ \<Rightarrow> True) \<Longrightarrow>
         \<not> sync_lock (snd (sync_missing_entries c s))"
  using assms
  by (auto simp: create_babyconnect_entries_def sync_missing_entries_def acquire_sync_lock_def
      call_get_missing_def finally_sync_simps Let_def
      split: sum.splits prod.splits raised.splits)

text \<open>
  Claim C6 says that the lock is released on every exit path of a call that acquired it,
  whether the call returns or raises. In \<^verbatim>\<open>sync_missing_entries\<close> the computation of the
  missing ids is guarded by \<^verbatim>\<open>except Exception\<close> alone, without the \<^verbatim>\<open>finally\<close> that
  guards the replay: when that computation raises something that is not an
  \<^verbatim>\<open>Exception\<close>, the raise leaves the handler and the lock stays held.
\<close>

theorem sync_missing_leaves_gate_held:
  assumes "\<not> sync_lock s" and "get_missing_famly_event_ids c = Inl (BaseException e)"
  shows "sync_missing_entries c s =
           (Inl (Uncaught e),
            s\<lparr>sync_lock := True, calls := calls s @ [(Call_get_missing, True, progress s)]\<rparr>)"
  using assms
  by (simp add: sync_missing_entries_def acquire_sync_lock_def call_get_missing_def
      record_call_def)

theorem sync_missing_leaves_gate_held_witness:
  "\<not> sync_lock idle_sys \<and>
   get_missing_famly_event_ids missing_exits_core = Inl (BaseException ''SystemExit'') \<and>
   sync_missing_entries missing_exits_core idle_sys =
     (Inl (Uncaught ''SystemExit''),
      \<lparr>sync_lock = True, progress = [], calls = [(Call_get_missing, True, [])]\<rparr>) \<and>
   fst (sync_missing_entries example_core (snd (sync_missing_entries missing_exits_core idle_sys))) =
     Inl (HTTPException 409 ''Sync already in progress. Please wait for it to finish.'')"
  using sync_missing_leaves_gate_held [of idle_sys missing_exits_core "''SystemExit''"]
  by (simp add: idle_sys_def missing_exits_core_def example_core_def sync_missing_entries_def
      acquire_sync_lock_def)

text \<open>
  Claim C7: a call of \<^verbatim>\<open>create_babyconnect_entries\<close>, or of
  \<^verbatim>\<open>sync_missing_entries\<close> with ids missing, that acquired the lock started a \<open>sync\<close>
  entry; once the call is over, whether the replay succeeded or failed, the progress
  snapshot has no \<open>sync\<close> entry.
\<close>

theorem sync_entry_cleared:
  assumes "\<not> sync_lock s"
  shows "map_of (scrape_progress (snd (create_babyconnect_entries c event_ids s))) ''sync'' = None \<and>
     (get_missing_famly_event_ids c = Inr ids \<and> ids \<noteq> [] \<longrightarrow>
        map_of (scrape_progress (snd (sync_missing_entries c s))) ''sync'' = None)"
  using assms
  by (auto simp: create_babyconnect_entries_def sync_missing_entries_def acquire_sync_lock_def
      call_get_missing_def finally_sync_simps Let_def scrape_progress_def
      get_progress_snapshot_def split: sum.splits prod.splits raised.splits)

theorem sync_entry_cleared_witness:
  "\<not> sync_lock idle_sys \<and>
   get_missing_famly_event_ids example_core = Inr [1, 2] \<and>
   get_missing_famly_event_ids create_fails_core = Inr [1, 2] \<and> [1, 2 :: int] \<noteq> [] \<and>
   map_of (scrape_progress (snd (create_babyconnect_entries example_core [1, 2] idle_sys))) ''sync'' = None \<and>
   map_of (scrape_progress (snd (sync_missing_entries example_core idle_sys))) ''sync'' = None \<and>
   map_of (scrape_progress (snd (create_babyconnect_entries create_fails_core [1, 2] idle_sys))) ''sync'' = None \<and>
   map_of (scrape_progress (snd (sync_missing_entries create_fails_core idle_sys))) ''sync'' = None"
  using sync_entry_cleared [of idle_sys example_core "[1, 2]" "[1, 2]"]
    sync_entry_cleared [of idle_sys create_fails_core "[1, 2]" "[1, 2]"]
  by (simp add: idle_sys_def example_core_def create_fails_core_def)

text \<open>
  Claim C8: called while the lock is held, \<^verbatim>\<open>create_babyconnect_entries\<close> and
  \<^verbatim>\<open>sync_missing_entries\<close> raise the 409 error and change nothing: the lock stays
  held, the tracker is as it was, and no call into the core is logged.
\<close>

theorem conflict_performs_no_work:
  "sync_lock s \<Longrightarrow>
     create_babyconnect_entries c event_ids s =
       (Inl (HTTPException 409 ''Sync already in progress. Please wait for it to finish.''), s) \<and>
     sync_missing_entries c s =
       (Inl (HTTPException 409 ''Sync already in progress. Please wait for it to finish.''), s)"
  by (simp add: create_babyconnect_entries_def sync_missing_entries_def acquire_sync_lock_def)

theorem conflict_performs_no_work_witness:
  "sync_lock busy_sys \<and>
   create_babyconnect_entries example_core [1, 2] busy_sys =
     (Inl (HTTPException 409 ''Sync already in progress. Please wait for it to finish.''), busy_sys) \<and>
   sync_missing_entries example_core busy_sys =
     (Inl (HTTPException 409 ''Sync already in progress. Please wait for it to finish.''), busy_sys)"
  using conflict_performs_no_work [of busy_sys example_core "[1, 2]"]
  by (simp add: busy_sys_def)

section \<open>The bound on \<^verbatim>\<open>days_back\<close>\<close>



section \<open>Creating an empty list of entries\<close>




end
